theory Spec2Isabelle
  imports Main
begin

section \<open>The Lua execution context as the loader sees it\<close>

text \<open>
  \<^verbatim>\<open>src/dawn_db_wrapper.cpp\<close> holds one function, \<^verbatim>\<open>luaopen_dawn_db(lua_State* L)\<close>.
  It calls four functions of the Lua C API: \<^verbatim>\<open>luaL_loadfile\<close>, \<^verbatim>\<open>lua_pcall\<close>,
  \<^verbatim>\<open>lua_tostring\<close> and \<^verbatim>\<open>luaL_error\<close>. The API belongs to the Lua runtime, not to this
  repository; it is modelled here after the Lua 5.1 reference manual, on an explicit state.
\<close>

datatype lua_value =
    LNil
  | LBoolean bool
  | LNumber int
  | LString string
  | LTable nat
  | LFunction nat

text \<open>
  \<open>LTable r\<close> is a table with identity \<open>r\<close>; \<open>LFunction u\<close> is the function that
  \<^verbatim>\<open>luaL_loadfile\<close> makes of the compiled unit \<open>u\<close>. Numbers are the integer-valued ones;
  their text (\<^verbatim>\<open>LUAI_NUMFFORMAT\<close>, a floating-point format) is a parameter of the runtime.
\<close>

datatype lua_err = ERRRUN | ERRSYNTAX | ERRMEM | ERRERR | ERRFILE

text \<open>The status numbers are those of \<^verbatim>\<open>lua.h\<close> (Lua 5.1, with \<^verbatim>\<open>LUA_OK\<close> as LuaJIT and
  later versions define it). The loader only compares a status with \<^verbatim>\<open>LUA_OK\<close>.\<close>

definition LUA_OK :: int where
  "LUA_OK = 0"

fun status_code :: "lua_err \<Rightarrow> int" where
  "status_code ERRRUN = 2"
| "status_code ERRSYNTAX = 3"
| "status_code ERRMEM = 4"
| "status_code ERRERR = 5"
| "status_code ERRFILE = 6"

text \<open>The calls made on a context, in order. The real \<^verbatim>\<open>lua_State\<close> keeps no such
  log; it is kept here so that which calls the loader makes can be stated.\<close>

datatype api_call = LoadFile string | PCall nat nat | Error

record 'g lua_State =
  stack :: "lua_value list"
  globals :: 'g
  caller_where :: string
  calls :: "api_call list"

text \<open>
  \<open>stack\<close> is the value stack, index 1 first and the top last. \<open>globals\<close> is all of the
  context that loaded code can read and change (global variables, registry, heap).
  \<open>caller_where\<close> is the position text \<^verbatim>\<open>luaL_where(L, 1)\<close> gives: empty when the
  running C function was called from C (as \<^verbatim>\<open>require\<close> does), \<^verbatim>\<open>chunk:line: \<close> when
  it was called from Lua code.
\<close>

text \<open>What running a compiled unit does: it returns values, or raises an error value
  with a status, or never hands control back (an endless loop, or ending the process).
  The first two leave the globals as the unit changed them.\<close>

datatype 'g run_result =
    Returns "lua_value list" 'g
  | Faults lua_err lua_value 'g
  | Hangs

datatype parse_result = Parsed nat | Unparsed lua_err string

text \<open>
  The runtime outside the context: \<open>files p\<close> is what reading and parsing the file at
  path \<open>p\<close> gives (a compiled unit, or a status other than \<^verbatim>\<open>LUA_OK\<close> with its
  message: file missing, unreadable, malformed, wrong bytecode version, out of memory);
  \<open>units u args g\<close> is the run of unit \<open>u\<close> on arguments \<open>args\<close> from globals \<open>g\<close>.
\<close>

record 'g runtime =
  files :: "string \<Rightarrow> parse_result"
  units :: "nat \<Rightarrow> lua_value list \<Rightarrow> 'g \<Rightarrow> 'g run_result"
  number2str :: "int \<Rightarrow> string"

datatype 'g outcome =
    Returned int (ctx: "'g lua_State")
  | Raised lua_value (ctx: "'g lua_State")
  | NoReturn (ctx: "'g lua_State")

text \<open>
  How a C function called by Lua ends: \<open>Returned n L\<close> is \<^verbatim>\<open>return n\<close>, with \<open>n\<close> results
  on top of the stack of \<open>L\<close>; \<open>Raised e L\<close> is \<^verbatim>\<open>lua_error\<close>, a long jump out of the
  function with error value \<open>e\<close>; \<open>NoReturn L\<close> is a call that never ends, \<open>L\<close> being
  the context as the unit was entered. \<open>ctx\<close> is the context an outcome leaves.
\<close>

subsection \<open>The API functions\<close>

text \<open>
  A Lua string has a length and may hold zero bytes. The same string read through a
  \<^verbatim>\<open>const char*\<close>, without its length, ends at its first zero byte.
\<close>

definition c_str :: "string \<Rightarrow> string" where
  "c_str s = takeWhile (\<lambda>c. c \<noteq> CHR 0x00) s"

text \<open>\<^verbatim>\<open>luaL_loadfile\<close>: pushes the compiled unit as a function and returns
  \<^verbatim>\<open>LUA_OK\<close>, or pushes the error message and returns the error status. The library
  builds that message with \<^verbatim>\<open>lua_pushfstring\<close> from C strings (the file name, the text of
  \<^verbatim>\<open>strerror\<close>, the reader's text), so the message pushed holds no zero byte.\<close>

definition luaL_loadfile :: "'g runtime \<Rightarrow> 'g lua_State \<Rightarrow> string \<Rightarrow> int \<times> 'g lua_State" where
  "luaL_loadfile rt L filename =
     (case files rt filename of
        Parsed u \<Rightarrow>
          (LUA_OK, L\<lparr>stack := stack L @ [LFunction u], calls := calls L @ [LoadFile filename]\<rparr>)
      | Unparsed e msg \<Rightarrow>
          (status_code e,
           L\<lparr>stack := stack L @ [LString (c_str msg)], calls := calls L @ [LoadFile filename]\<rparr>))"

text \<open>Stack indices: \<open>1\<close> is the bottom, \<open>-1\<close> the top; any other index is not valid
  (pseudo-indices are not used by the loader).\<close>

definition index2adr :: "'g lua_State \<Rightarrow> int \<Rightarrow> nat option" where
  "index2adr L idx =
     (let n = int (length (stack L)) in
      if 0 < idx \<and> idx \<le> n then Some (nat (idx - 1))
      else if idx < 0 \<and> - idx \<le> n then Some (nat (n + idx))
      else None)"

text \<open>\<^verbatim>\<open>lua_tostring\<close>: a pointer to the bytes of a string (the length is dropped: it
  is \<^verbatim>\<open>lua_tolstring\<close> with \<^verbatim>\<open>NULL\<close> for the length); a number is turned into a string in
  place, its text being written by \<^verbatim>\<open>sprintf\<close> as a C string; \<^verbatim>\<open>NULL\<close> (here \<open>None\<close>) for
  every other value and for an index that is not valid.\<close>

definition lua_tostring :: "'g runtime \<Rightarrow> 'g lua_State \<Rightarrow> int \<Rightarrow> string option \<times> 'g lua_State" where
  "lua_tostring rt L idx =
     (case index2adr L idx of
        None \<Rightarrow> (None, L)
      | Some i \<Rightarrow>
          (case stack L ! i of
             LString s \<Rightarrow> (Some s, L)
           | LNumber n \<Rightarrow>
               (let s = c_str (number2str rt n)
                in (Some s, L\<lparr>stack := (stack L)[i := LString s]\<rparr>))
           | _ \<Rightarrow> (None, L)))"

text \<open>\<^verbatim>\<open>lua_pushvfstring\<close>, the text it builds: \<^verbatim>\<open>%s\<close> takes the next argument, a
  zero-terminated \<^verbatim>\<open>const char*\<close>, and copies it up to its first zero byte, a \<^verbatim>\<open>NULL\<close>
  argument giving \<^verbatim>\<open>(null)\<close>; \<^verbatim>\<open>%%\<close> is a percent sign. The loader's formats are C
  literals that use \<^verbatim>\<open>%s\<close> only, once, with one argument; other directives are copied as
  they are.\<close>

fun lua_pushvfstring :: "string \<Rightarrow> string option list \<Rightarrow> string" where
  "lua_pushvfstring [] args = []"
| "lua_pushvfstring [c] args = [c]"
| "lua_pushvfstring (c # d # cs) args =
     (if c = CHR ''%'' \<and> d = CHR ''s'' then
        (case args of
           [] \<Rightarrow> ''(null)'' @ lua_pushvfstring cs []
         | a # as \<Rightarrow>
             (case a of None \<Rightarrow> ''(null)'' | Some s \<Rightarrow> c_str s) @ lua_pushvfstring cs as)
      else if c = CHR ''%'' \<and> d = CHR ''%'' then CHR ''%'' # lua_pushvfstring cs args
      else if c = CHR ''%'' then c # d # lua_pushvfstring cs args
      else c # lua_pushvfstring (d # cs) args)"

text \<open>\<^verbatim>\<open>luaL_error\<close>: pushes \<^verbatim>\<open>luaL_where(L, 1)\<close> followed by the formatted message as
  one string (joined by \<^verbatim>\<open>lua_concat\<close>, which keeps lengths) and raises it with
  \<^verbatim>\<open>lua_error\<close>; it never returns.\<close>

definition luaL_error :: "'g lua_State \<Rightarrow> string \<Rightarrow> string option list \<Rightarrow> 'g outcome" where
  "luaL_error L fmt args =
     (let msg = LString (caller_where L @ lua_pushvfstring fmt args) in
      Raised msg (L\<lparr>stack := stack L @ [msg], calls := calls L @ [Error]\<rparr>))"

fun lua_typename :: "lua_value \<Rightarrow> string" where
  "lua_typename LNil = ''nil''"
| "lua_typename (LBoolean b) = ''boolean''"
| "lua_typename (LNumber n) = ''number''"
| "lua_typename (LString s) = ''string''"
| "lua_typename (LTable r) = ''table''"
| "lua_typename (LFunction u) = ''function''"

text \<open>The results of a call, cut or filled with \<^verbatim>\<open>nil\<close> to the number asked for.\<close>

definition adjust_results :: "nat \<Rightarrow> lua_value list \<Rightarrow> lua_value list" where
  "adjust_results nresults vs = take nresults vs @ replicate (nresults - length vs) LNil"

text \<open>
  \<^verbatim>\<open>lua_pcall(L, nargs, nresults, 0)\<close>, without a message handler (the only form the
  loader uses): pops the function and its \<open>nargs\<close> arguments and calls the function in
  protected mode. On success the results, adjusted to \<open>nresults\<close>, are pushed and the
  status is \<^verbatim>\<open>LUA_OK\<close>; on an error the error value alone is pushed and the status is the
  error's. The status is \<open>None\<close> when the call never returns: the unit hangs, or the stack
  holds fewer than \<open>nargs + 1\<close> values, which the API does not allow.
\<close>

definition lua_pcall :: "'g runtime \<Rightarrow> 'g lua_State \<Rightarrow> nat \<Rightarrow> nat \<Rightarrow> int option \<times> 'g lua_State" where
  "lua_pcall rt L nargs nresults =
     (let n = length (stack L) in
      if n < nargs + 1 then (None, L)
      else
        let func = stack L ! (n - nargs - 1);
            args = drop (n - nargs) (stack L);
            base = take (n - nargs - 1) (stack L);
            L0 = L\<lparr>stack := base, calls := calls L @ [PCall nargs nresults]\<rparr>
        in case func of
             LFunction u \<Rightarrow>
               (case units rt u args (globals L) of
                  Returns vs g \<Rightarrow>
                    (Some LUA_OK, L0\<lparr>stack := base @ adjust_results nresults vs, globals := g\<rparr>)
                | Faults e v g \<Rightarrow>
                    (Some (status_code e), L0\<lparr>stack := base @ [v], globals := g\<rparr>)
                | Hangs \<Rightarrow> (None, L0))
           | _ \<Rightarrow>
               (Some (status_code ERRRUN),
                L0\<lparr>stack := base @ [LString (''attempt to call a '' @ lua_typename func @ '' value'')]\<rparr>))"

section \<open>The loader\<close>

text \<open>
  \<^verbatim>\<open>
  int luaopen_dawn_db(lua_State* L) {
      const char* path = "/usr/local/share/lua/5.1/dawn_db.luac";
      if (luaL_loadfile(L, path) != LUA_OK) {
          return luaL_error(L, "Failed to load dawn_db.luac: %s", lua_tostring(L, -1));
      }
      if (lua_pcall(L, 0, 1, 0) != LUA_OK) {
          return luaL_error(L, "Error running dawn_db.luac: %s", lua_tostring(L, -1));
      }
      return 1;
  }
  \<close>
\<close>

definition luaopen_dawn_db :: "'g runtime \<Rightarrow> 'g lua_State \<Rightarrow> 'g outcome" where
  "luaopen_dawn_db rt L =
     (let path = ''/usr/local/share/lua/5.1/dawn_db.luac'' in
      case luaL_loadfile rt L path of
        (st, L1) \<Rightarrow>
          if st \<noteq> LUA_OK then
            (case lua_tostring rt L1 (- 1) of
               (s, L2) \<Rightarrow> luaL_error L2 ''Failed to load dawn_db.luac: %s'' [s])
          else
            (case lua_pcall rt L1 0 1 of
               (None, L2) \<Rightarrow> NoReturn L2
             | (Some st', L2) \<Rightarrow>
                 if st' \<noteq> LUA_OK then
                   (case lua_tostring rt L2 (- 1) of
                      (s, L3) \<Rightarrow> luaL_error L3 ''Error running dawn_db.luac: %s'' [s])
                 else Returned 1 L2))"

section \<open>Example runtimes and contexts\<close>

text \<open>The decimal text of an integer, as \<^verbatim>\<open>%.14g\<close> prints the integer-valued numbers
  below \<open>10\<^sup>1\<^sup>4\<close>.\<close>

fun decimal_nat :: "nat \<Rightarrow> string" where
  "decimal_nat n =
     (if n < 10 then [''0123456789'' ! n]
      else decimal_nat (n div 10) @ [''0123456789'' ! (n mod 10)])"

declare decimal_nat.simps [simp del]

definition decimal :: "int \<Rightarrow> string" where
  "decimal i = (if i < 0 then CHR ''-'' # decimal_nat (nat (- i)) else decimal_nat (nat i))"

text \<open>A file system that holds \<open>pr\<close> at the loader's path and nothing anywhere else, and
  one unit whose run is \<open>run\<close>. The globals are a single counter.\<close>

definition demo_files :: "parse_result \<Rightarrow> string \<Rightarrow> parse_result" where
  "demo_files pr p =
     (if p = ''/usr/local/share/lua/5.1/dawn_db.luac'' then pr
      else Unparsed ERRFILE (''cannot open '' @ p))"

definition demo_runtime :: "parse_result \<Rightarrow> (nat \<Rightarrow> nat run_result) \<Rightarrow> nat runtime" where
  "demo_runtime pr run =
     \<lparr>files = demo_files pr, units = (\<lambda>u args g. run g), number2str = decimal\<rparr>"

definition demo_state :: "lua_value list \<Rightarrow> nat \<Rightarrow> nat lua_State" where
  "demo_state s g = \<lparr>stack = s, globals = g, caller_where = [], calls = []\<rparr>"

text \<open>A file system with a good unit at \<^verbatim>\<open>/tmp/alt.luac\<close> and nothing at the loader's path.\<close>

definition alt_runtime :: "nat runtime" where
  "alt_runtime =
     \<lparr>files = (\<lambda>p. if p = ''/tmp/alt.luac'' then Parsed 0
                   else Unparsed ERRFILE (''cannot open '' @ p)),
      units = (\<lambda>u args g. Returns [LTable 1] g),
      number2str = decimal\<rparr>"

text \<open>The unit \<^verbatim>\<open>counter = (counter or 0) + 1; return counter\<close>, on a global variable.\<close>

definition counter_unit :: "nat \<Rightarrow> nat run_result" where
  "counter_unit g = Returns [LNumber (int g + 1)] (g + 1)"

text \<open>The units \<^verbatim>\<open>error({code = 1})\<close> and \<^verbatim>\<open>error()\<close>: the error value is a table, or \<^verbatim>\<open>nil\<close>.\<close>

definition table_fault_unit :: "nat \<Rightarrow> nat run_result" where
  "table_fault_unit g = Faults ERRRUN (LTable 3) g"

definition nil_fault_unit :: "nat \<Rightarrow> nat run_result" where
  "nil_fault_unit g = Faults ERRRUN LNil g"

text \<open>The units \<^verbatim>\<open>error("disk\0full", 0)\<close> and \<^verbatim>\<open>error("a\0b", 0)\<close>: the error value is a
  string that holds a zero byte.\<close>

definition zero_byte_fault_unit :: "nat \<Rightarrow> nat run_result" where
  "zero_byte_fault_unit g = Faults ERRRUN (LString (''disk'' @ CHR 0x00 # ''full'')) g"

definition short_zero_byte_fault_unit :: "nat \<Rightarrow> nat run_result" where
  "short_zero_byte_fault_unit g = Faults ERRRUN (LString [CHR ''a'', CHR 0x00, CHR ''b'']) g"

text \<open>The units \<^verbatim>\<open>error(42, 0)\<close> and \<^verbatim>\<open>return {}\<close> (a table that is the same each time).\<close>

definition number_fault_unit :: "nat \<Rightarrow> nat run_result" where
  "number_fault_unit g = Faults ERRRUN (LNumber 42) g"

definition table_unit :: "nat \<Rightarrow> nat run_result" where
  "table_unit g = Returns [LTable 7] g"

section \<open>Properties of the API model\<close>

lemma c_str_idem [simp]: "c_str (c_str s) = c_str s"
  by (simp add: c_str_def)

lemma c_str_zero_free: "CHR 0x00 \<notin> set s \<Longrightarrow> c_str s = s"
  by (auto simp add: c_str_def)

lemma fmt_load:
  "lua_pushvfstring ''Failed to load dawn_db.luac: %s'' [a] =
     ''Failed to load dawn_db.luac: '' @ (case a of None \<Rightarrow> ''(null)'' | Some s \<Rightarrow> c_str s)"
  by simp

lemma fmt_run:
  "lua_pushvfstring ''Error running dawn_db.luac: %s'' [a] =
     ''Error running dawn_db.luac: '' @ (case a of None \<Rightarrow> ''(null)'' | Some s \<Rightarrow> c_str s)"
  by simp

lemma index2adr_top: "stack L \<noteq> [] \<Longrightarrow> index2adr L (- 1) = Some (length (stack L) - 1)"
  by (cases "stack L") (simp_all add: index2adr_def)

lemma tostring_top:
  "stack L \<noteq> [] \<Longrightarrow> lua_tostring rt L (- 1) =
     (case last (stack L) of
        LString s \<Rightarrow> (Some s, L)
      | LNumber n \<Rightarrow>
          (Some (c_str (number2str rt n)),
           L\<lparr>stack := butlast (stack L) @ [LString (c_str (number2str rt n))]\<rparr>)
      | _ \<Rightarrow> (None, L))"
  by (cases "stack L" rule: rev_cases)
     (simp_all add: lua_tostring_def index2adr_top Let_def split: lua_value.splits)

lemma pcall_top:
  "stack L \<noteq> [] \<Longrightarrow> lua_pcall rt L 0 nres =
     (case last (stack L) of
        LFunction u \<Rightarrow>
          (case units rt u [] (globals L) of
             Returns vs g \<Rightarrow>
               (Some LUA_OK, L\<lparr>stack := butlast (stack L) @ adjust_results nres vs,
                               calls := calls L @ [PCall 0 nres], globals := g\<rparr>)
           | Faults e v g \<Rightarrow>
               (Some (status_code e), L\<lparr>stack := butlast (stack L) @ [v],
                               calls := calls L @ [PCall 0 nres], globals := g\<rparr>)
           | Hangs \<Rightarrow> (None, L\<lparr>stack := butlast (stack L), calls := calls L @ [PCall 0 nres]\<rparr>))
      | v \<Rightarrow> (Some (status_code ERRRUN),
              L\<lparr>stack := butlast (stack L) @
                          [LString (''attempt to call a '' @ lua_typename v @ '' value'')],
                calls := calls L @ [PCall 0 nres]\<rparr>))"
  by (cases "stack L" rule: rev_cases)
     (simp_all add: lua_pcall_def Let_def split: lua_value.splits run_result.splits)

lemma status_code_not_ok: "status_code e \<noteq> LUA_OK"
  by (cases e) (simp_all add: LUA_OK_def)

lemma adjust_results_one:
  "adjust_results (Suc 0) vs = [case vs of [] \<Rightarrow> LNil | v # _ \<Rightarrow> v]"
  by (cases vs) (simp_all add: adjust_results_def)

section \<open>The four ways a call of the loader goes\<close>

lemma open_parse_fails:
  assumes "files rt ''/usr/local/share/lua/5.1/dawn_db.luac'' = Unparsed e msg"
  shows "luaopen_dawn_db rt L =
     Raised (LString (caller_where L @ ''Failed to load dawn_db.luac: '' @ c_str msg))
       (L\<lparr>stack := stack L @ [LString (c_str msg),
              LString (caller_where L @ ''Failed to load dawn_db.luac: '' @ c_str msg)],
          calls := calls L @ [LoadFile ''/usr/local/share/lua/5.1/dawn_db.luac'', Error]\<rparr>)"
  using assms
  by (simp add: luaopen_dawn_db_def luaL_loadfile_def status_code_not_ok
      tostring_top luaL_error_def Let_def)

lemma open_returns:
  assumes "files rt ''/usr/local/share/lua/5.1/dawn_db.luac'' = Parsed u"
    and "units rt u [] (globals L) = Returns vs g"
  shows "luaopen_dawn_db rt L =
     Returned 1
       (L\<lparr>stack := stack L @ [case vs of [] \<Rightarrow> LNil | v # _ \<Rightarrow> v], globals := g,
          calls := calls L @ [LoadFile ''/usr/local/share/lua/5.1/dawn_db.luac'', PCall 0 1]\<rparr>)"
  using assms
  by (simp add: luaopen_dawn_db_def luaL_loadfile_def pcall_top Let_def adjust_results_one)

lemma open_hangs:
  assumes "files rt ''/usr/local/share/lua/5.1/dawn_db.luac'' = Parsed u"
    and "units rt u [] (globals L) = Hangs"
  shows "luaopen_dawn_db rt L =
     NoReturn
       (L\<lparr>calls := calls L @ [LoadFile ''/usr/local/share/lua/5.1/dawn_db.luac'', PCall 0 1]\<rparr>)"
  using assms
  by (simp add: luaopen_dawn_db_def luaL_loadfile_def pcall_top Let_def)

lemma open_faults:
  assumes "files rt ''/usr/local/share/lua/5.1/dawn_db.luac'' = Parsed u"
    and "units rt u [] (globals L) = Faults e v g"
  shows "luaopen_dawn_db rt L =
     Raised
       (LString (caller_where L @ ''Error running dawn_db.luac: '' @
          (case v of LString s \<Rightarrow> c_str s | LNumber n \<Rightarrow> c_str (number2str rt n)
           | _ \<Rightarrow> ''(null)'')))
       (L\<lparr>stack := stack L @
            [case v of LNumber n \<Rightarrow> LString (c_str (number2str rt n)) | _ \<Rightarrow> v,
             LString (caller_where L @ ''Error running dawn_db.luac: '' @
               (case v of LString s \<Rightarrow> c_str s | LNumber n \<Rightarrow> c_str (number2str rt n)
                | _ \<Rightarrow> ''(null)''))],
          globals := g,
          calls := calls L @
            [LoadFile ''/usr/local/share/lua/5.1/dawn_db.luac'', PCall 0 1, Error]\<rparr>)"
  using assms
  by (cases v) (simp_all add: luaopen_dawn_db_def luaL_loadfile_def pcall_top Let_def
      status_code_not_ok tostring_top luaL_error_def)

text \<open>All of them in one equation.\<close>

lemma open_cases:
  "luaopen_dawn_db rt L =
     (case files rt ''/usr/local/share/lua/5.1/dawn_db.luac'' of
        Unparsed e msg \<Rightarrow>
          Raised (LString (caller_where L @ ''Failed to load dawn_db.luac: '' @ c_str msg))
            (L\<lparr>stack := stack L @ [LString (c_str msg),
                   LString (caller_where L @ ''Failed to load dawn_db.luac: '' @ c_str msg)],
               calls := calls L @ [LoadFile ''/usr/local/share/lua/5.1/dawn_db.luac'', Error]\<rparr>)
      | Parsed u \<Rightarrow>
          (case units rt u [] (globals L) of
             Returns vs g \<Rightarrow>
               Returned 1
                 (L\<lparr>stack := stack L @ [case vs of [] \<Rightarrow> LNil | v # _ \<Rightarrow> v], globals := g,
                    calls := calls L @
                      [LoadFile ''/usr/local/share/lua/5.1/dawn_db.luac'', PCall 0 1]\<rparr>)
           | Faults e v g \<Rightarrow>
               Raised
                 (LString (caller_where L @ ''Error running dawn_db.luac: '' @
                    (case v of LString s \<Rightarrow> c_str s | LNumber n \<Rightarrow> c_str (number2str rt n)
                     | _ \<Rightarrow> ''(null)'')))
                 (L\<lparr>stack := stack L @
                      [case v of LNumber n \<Rightarrow> LString (c_str (number2str rt n)) | _ \<Rightarrow> v,
                       LString (caller_where L @ ''Error running dawn_db.luac: '' @
                         (case v of LString s \<Rightarrow> c_str s
                          | LNumber n \<Rightarrow> c_str (number2str rt n) | _ \<Rightarrow> ''(null)''))],
                    globals := g,
                    calls := calls L @
                      [LoadFile ''/usr/local/share/lua/5.1/dawn_db.luac'', PCall 0 1, Error]\<rparr>)
           | Hangs \<Rightarrow>
               NoReturn
                 (L\<lparr>calls := calls L @
                      [LoadFile ''/usr/local/share/lua/5.1/dawn_db.luac'', PCall 0 1]\<rparr>)))"
proof (cases "files rt ''/usr/local/share/lua/5.1/dawn_db.luac''")
  case (Unparsed e msg)
  then show ?thesis by (simp add: open_parse_fails)
next
  case (Parsed u)
  show ?thesis
  proof (cases "units rt u [] (globals L)")
    case (Returns vs g)
    with Parsed show ?thesis by (simp add: open_returns)
  next
    case Hangs
    with Parsed show ?thesis by (simp add: open_hangs)
  next
    case (Faults e v g)
    with Parsed open_faults [OF Parsed Faults] show ?thesis by simp
  qed
qed

section \<open>The claims\<close>

text \<open>
  C1. Whenever the file at the loader's path parses and the run of the unit succeeds
  with a single value \<open>v\<close>, \<^verbatim>\<open>luaopen_dawn_db\<close> returns 1 and leaves exactly \<open>v\<close>, unchanged,
  on top of the stack it was entered with.
\<close>

theorem success_returns_unit_value:
  assumes "files rt ''/usr/local/share/lua/5.1/dawn_db.luac'' = Parsed u"
    and "units rt u [] (globals L) = Returns [v] g"
  shows "luaopen_dawn_db rt L =
     Returned 1
       (L\<lparr>stack := stack L @ [v], globals := g,
          calls := calls L @ [LoadFile ''/usr/local/share/lua/5.1/dawn_db.luac'', PCall 0 1]\<rparr>)"
  using open_returns [OF assms] by simp

theorem success_returns_unit_value_witness:
  "files (demo_runtime (Parsed 0) (\<lambda>g. Returns [LTable 7] g))
       ''/usr/local/share/lua/5.1/dawn_db.luac'' = Parsed 0
   \<and> units (demo_runtime (Parsed 0) (\<lambda>g. Returns [LTable 7] g)) 0 []
       (globals (demo_state [LString ''dawn_db''] 0)) = Returns [LTable 7] 0
   \<and> luaopen_dawn_db (demo_runtime (Parsed 0) (\<lambda>g. Returns [LTable 7] g))
       (demo_state [LString ''dawn_db''] 0) =
     Returned 1
       \<lparr>stack = [LString ''dawn_db'', LTable 7], globals = 0, caller_where = [],
        calls = [LoadFile ''/usr/local/share/lua/5.1/dawn_db.luac'', PCall 0 1]\<rparr>"
  using success_returns_unit_value
    [of "demo_runtime (Parsed 0) (\<lambda>g. Returns [LTable 7] g)" 0
        "demo_state [LString ''dawn_db''] 0" "LTable 7" 0]
  by (simp add: demo_runtime_def demo_files_def demo_state_def)

text \<open>
  C2. Whenever reading or parsing the file fails (whatever the status: missing or
  unreadable file, malformed content, wrong bytecode version, no memory), the loader
  raises at once the error \<^verbatim>\<open>Failed to load dawn_db.luac: \<close> followed by the message
  that \<^verbatim>\<open>luaL_loadfile\<close> left on the stack, whole; the only calls made are the load and the
  raise, so the unit is never executed and the globals are as they were.
\<close>

theorem parse_failure_raises:
  assumes "files rt ''/usr/local/share/lua/5.1/dawn_db.luac'' = Unparsed e msg"
  shows "luaopen_dawn_db rt L =
     Raised (LString (caller_where L @ ''Failed to load dawn_db.luac: '' @ c_str msg))
       (L\<lparr>stack := stack L @ [LString (c_str msg),
              LString (caller_where L @ ''Failed to load dawn_db.luac: '' @ c_str msg)],
          calls := calls L @ [LoadFile ''/usr/local/share/lua/5.1/dawn_db.luac'', Error]\<rparr>)"
  by (rule open_parse_fails [OF assms])

theorem parse_failure_raises_witness:
  "files (demo_runtime (Unparsed ERRFILE ''cannot open dawn_db.luac'') counter_unit)
       ''/usr/local/share/lua/5.1/dawn_db.luac'' = Unparsed ERRFILE ''cannot open dawn_db.luac''
   \<and> luaopen_dawn_db (demo_runtime (Unparsed ERRFILE ''cannot open dawn_db.luac'') counter_unit)
       (demo_state [] 0) =
     Raised (LString ''Failed to load dawn_db.luac: cannot open dawn_db.luac'')
       \<lparr>stack = [LString ''cannot open dawn_db.luac'',
                 LString ''Failed to load dawn_db.luac: cannot open dawn_db.luac''],
        globals = 0, caller_where = [],
        calls = [LoadFile ''/usr/local/share/lua/5.1/dawn_db.luac'', Error]\<rparr>"
  using parse_failure_raises
    [of "demo_runtime (Unparsed ERRFILE ''cannot open dawn_db.luac'') counter_unit"
        ERRFILE "''cannot open dawn_db.luac''" "demo_state [] 0"]
  by (simp add: demo_runtime_def demo_files_def demo_state_def c_str_def)

text \<open>
  C3, as amended. Whenever the file parses and the run of the unit raises a fault,
  whatever its error value, the loader raises at once an error that begins
  \<^verbatim>\<open>Error running dawn_db.luac: \<close>, after one \<^verbatim>\<open>lua_pcall\<close> and no other. When the error
  value is a string that holds no zero byte, the rest of the message is that string;
  when it is a number, the rest is the number's text.
\<close>

theorem fault_raises_at_once:
  assumes "files rt ''/usr/local/share/lua/5.1/dawn_db.luac'' = Parsed u"
    and "units rt u [] (globals L) = Faults e v g"
  shows "\<exists>txt. luaopen_dawn_db rt L =
       Raised (LString (caller_where L @ ''Error running dawn_db.luac: '' @ txt))
         (L\<lparr>stack := stack L @
              [case v of LNumber n \<Rightarrow> LString (c_str (number2str rt n)) | _ \<Rightarrow> v,
               LString (caller_where L @ ''Error running dawn_db.luac: '' @ txt)],
            globals := g,
            calls := calls L @
              [LoadFile ''/usr/local/share/lua/5.1/dawn_db.luac'', PCall 0 1, Error]\<rparr>)
     \<and> (\<forall>s. v = LString s \<and> CHR 0x00 \<notin> set s \<longrightarrow> txt = s)
     \<and> (\<forall>n. v = LNumber n \<longrightarrow> txt = c_str (number2str rt n))"
  using open_faults [OF assms] by (auto simp add: c_str_zero_free)

theorem fault_raises_at_once_witness:
  "luaopen_dawn_db (demo_runtime (Parsed 0)
       (\<lambda>g. Faults ERRRUN (LString ''dawn_db.lua:3: attempt to call a nil value'') (g + 1)))
       (demo_state [] 0) =
     Raised
       (LString ''Error running dawn_db.luac: dawn_db.lua:3: attempt to call a nil value'')
       \<lparr>stack = [LString ''dawn_db.lua:3: attempt to call a nil value'',
          LString ''Error running dawn_db.luac: dawn_db.lua:3: attempt to call a nil value''],
        globals = 1, caller_where = [],
        calls = [LoadFile ''/usr/local/share/lua/5.1/dawn_db.luac'', PCall 0 1, Error]\<rparr>
   \<and> luaopen_dawn_db (demo_runtime (Parsed 0) number_fault_unit) (demo_state [] 0) =
     Raised (LString ''Error running dawn_db.luac: 42'')
       \<lparr>stack = [LString ''42'', LString ''Error running dawn_db.luac: 42''],
        globals = 0, caller_where = [],
        calls = [LoadFile ''/usr/local/share/lua/5.1/dawn_db.luac'', PCall 0 1, Error]\<rparr>"
proof -
  let ?m = "''dawn_db.lua:3: attempt to call a nil value''"
  let ?rt = "demo_runtime (Parsed 0) (\<lambda>g. Faults ERRRUN (LString ?m) (g + 1))"
  have p: "files ?rt ''/usr/local/share/lua/5.1/dawn_db.luac'' = Parsed 0"
    by (simp add: demo_runtime_def demo_files_def)
  have r: "units ?rt 0 [] (globals (demo_state [] 0)) = Faults ERRRUN (LString ?m) 1"
    by (simp add: demo_runtime_def demo_state_def)
  have z: "CHR 0x00 \<notin> set ?m" by simp
  from fault_raises_at_once [OF p r] z
  have a: "luaopen_dawn_db ?rt (demo_state [] 0) =
     Raised (LString (''Error running dawn_db.luac: '' @ ?m))
       \<lparr>stack = [LString ?m, LString (''Error running dawn_db.luac: '' @ ?m)],
        globals = 1, caller_where = [],
        calls = [LoadFile ''/usr/local/share/lua/5.1/dawn_db.luac'', PCall 0 1, Error]\<rparr>"
    by (auto simp add: demo_state_def)
  let ?rn = "demo_runtime (Parsed 0) number_fault_unit"
  have pn: "files ?rn ''/usr/local/share/lua/5.1/dawn_db.luac'' = Parsed 0"
    by (simp add: demo_runtime_def demo_files_def)
  have rn: "units ?rn 0 [] (globals (demo_state [] 0)) = Faults ERRRUN (LNumber 42) 0"
    by (simp add: demo_runtime_def demo_state_def number_fault_unit_def)
  have t: "c_str (number2str ?rn 42) = ''42''"
    by (simp add: demo_runtime_def decimal_def decimal_nat.simps c_str_def)
  from fault_raises_at_once [OF pn rn] t
  have b: "luaopen_dawn_db ?rn (demo_state [] 0) =
     Raised (LString ''Error running dawn_db.luac: 42'')
       \<lparr>stack = [LString ''42'', LString ''Error running dawn_db.luac: 42''],
        globals = 0, caller_where = [],
        calls = [LoadFile ''/usr/local/share/lua/5.1/dawn_db.luac'', PCall 0 1, Error]\<rparr>"
    by (auto simp add: demo_state_def)
  from a b show ?thesis by simp
qed

text \<open>
  C3 as it is written has the error carry the message of every fault. A unit that
  raises a table, as \<^verbatim>\<open>error({code = 1})\<close> does, leaves a value of which \<^verbatim>\<open>lua_tostring\<close>
  gives \<^verbatim>\<open>NULL\<close>: the error raised says \<^verbatim>\<open>(null)\<close> and nothing of the fault. A unit that
  raises a string with a zero byte in it has its message cut at that byte by \<^verbatim>\<open>%s\<close>.
\<close>

theorem fault_message_lost_counterexample:
  "files (demo_runtime (Parsed 0) table_fault_unit)
       ''/usr/local/share/lua/5.1/dawn_db.luac'' = Parsed 0
   \<and> units (demo_runtime (Parsed 0) table_fault_unit) 0 []
       (globals (demo_state [] 0)) = Faults ERRRUN (LTable 3) 0
   \<and> luaopen_dawn_db (demo_runtime (Parsed 0) table_fault_unit) (demo_state [] 0) =
     Raised (LString ''Error running dawn_db.luac: (null)'')
       \<lparr>stack = [LTable 3, LString ''Error running dawn_db.luac: (null)''],
        globals = 0, caller_where = [],
        calls = [LoadFile ''/usr/local/share/lua/5.1/dawn_db.luac'', PCall 0 1, Error]\<rparr>
   \<and> units (demo_runtime (Parsed 0) zero_byte_fault_unit) 0 []
       (globals (demo_state [] 0)) = Faults ERRRUN (LString (''disk'' @ CHR 0x00 # ''full'')) 0
   \<and> luaopen_dawn_db (demo_runtime (Parsed 0) zero_byte_fault_unit) (demo_state [] 0) =
     Raised (LString ''Error running dawn_db.luac: disk'')
       \<lparr>stack = [LString (''disk'' @ CHR 0x00 # ''full''),
                 LString ''Error running dawn_db.luac: disk''],
        globals = 0, caller_where = [],
        calls = [LoadFile ''/usr/local/share/lua/5.1/dawn_db.luac'', PCall 0 1, Error]\<rparr>"
  by (simp add: open_cases demo_runtime_def demo_files_def demo_state_def table_fault_unit_def
      zero_byte_fault_unit_def c_str_def)

text \<open>
  C4, as amended. The entry point takes the execution context alone. Whatever runtime and
  whatever stack it is entered with, it reads one file, the one at the fixed path
  \<^verbatim>\<open>/usr/local/share/lua/5.1/dawn_db.luac\<close>: the first call it makes is that load, and no
  other load follows.
\<close>

theorem loads_fixed_path_only:
  "\<exists>rest. calls (ctx (luaopen_dawn_db rt L)) =
       calls L @ LoadFile ''/usr/local/share/lua/5.1/dawn_db.luac'' # rest
     \<and> (\<forall>p. LoadFile p \<notin> set rest)"
  by (simp add: open_cases split: parse_result.splits run_result.splits)

theorem loads_fixed_path_only_witness:
  "\<exists>rest. calls (ctx (luaopen_dawn_db alt_runtime (demo_state [LString ''/tmp/alt.luac''] 0))) =
       calls (demo_state [LString ''/tmp/alt.luac''] 0) @
         LoadFile ''/usr/local/share/lua/5.1/dawn_db.luac'' # rest
     \<and> (\<forall>p. LoadFile p \<notin> set rest)"
  by (rule loads_fixed_path_only [of alt_runtime "demo_state [LString ''/tmp/alt.luac''] 0"])

text \<open>
  C4 as it is written has the caller name the file. A caller that passes
  \<^verbatim>\<open>/tmp/alt.luac\<close>, where a good unit lies, as the argument on the stack gets the file at
  the fixed path read instead, and the error of its absence.
\<close>

theorem path_argument_ignored_counterexample:
  "files alt_runtime ''/tmp/alt.luac'' = Parsed 0
   \<and> luaopen_dawn_db alt_runtime (demo_state [LString ''/tmp/alt.luac''] 0) =
     Raised
       (LString ''Failed to load dawn_db.luac: cannot open /usr/local/share/lua/5.1/dawn_db.luac'')
       \<lparr>stack = [LString ''/tmp/alt.luac'',
          LString ''cannot open /usr/local/share/lua/5.1/dawn_db.luac'',
          LString ''Failed to load dawn_db.luac: cannot open /usr/local/share/lua/5.1/dawn_db.luac''],
        globals = 0, caller_where = [],
        calls = [LoadFile ''/usr/local/share/lua/5.1/dawn_db.luac'', Error]\<rparr>"
  by (simp add: open_cases alt_runtime_def demo_state_def c_str_def)

text \<open>
  C5, as amended. The loader keeps nothing from one call to the next. Whatever the unit,
  each of two consecutive calls loads the file and executes the unit anew: the log grows
  by one load and one \<^verbatim>\<open>lua_pcall\<close> each time, and the second call delivers what a run of
  the unit from the globals left by the first call gives (its first value on top of the
  stack, or its fault, or no return). Both calls deliver the same value whenever that
  run returns the values that the first run returned.
\<close>

theorem consecutive_calls_rerun:
  assumes "files rt ''/usr/local/share/lua/5.1/dawn_db.luac'' = Parsed u"
  shows "(\<exists>r1 r2. calls (ctx (luaopen_dawn_db rt (ctx (luaopen_dawn_db rt L)))) =
            calls L @ [LoadFile ''/usr/local/share/lua/5.1/dawn_db.luac'', PCall 0 1] @ r1
                    @ [LoadFile ''/usr/local/share/lua/5.1/dawn_db.luac'', PCall 0 1] @ r2
          \<and> set r1 \<subseteq> {Error} \<and> set r2 \<subseteq> {Error})
     \<and> (case units rt u [] (globals (ctx (luaopen_dawn_db rt L))) of
           Returns vs g \<Rightarrow>
             (\<exists>M. luaopen_dawn_db rt (ctx (luaopen_dawn_db rt L)) = Returned 1 M
                \<and> stack M = stack (ctx (luaopen_dawn_db rt L)) @
                              [case vs of [] \<Rightarrow> LNil | v # _ \<Rightarrow> v]
                \<and> globals M = g)
         | Faults e v g \<Rightarrow>
             (\<exists>x M. luaopen_dawn_db rt (ctx (luaopen_dawn_db rt L)) = Raised x M
                \<and> globals M = g)
         | Hangs \<Rightarrow> (\<exists>M. luaopen_dawn_db rt (ctx (luaopen_dawn_db rt L)) = NoReturn M))
     \<and> (\<forall>vs g1 g2. units rt u [] (globals L) = Returns vs g1 \<and> units rt u [] g1 = Returns vs g2 \<longrightarrow>
           (\<exists>M1 M2. luaopen_dawn_db rt L = Returned 1 M1
              \<and> luaopen_dawn_db rt M1 = Returned 1 M2
              \<and> stack M1 = stack L @ [case vs of [] \<Rightarrow> LNil | v # _ \<Rightarrow> v]
              \<and> stack M2 = stack M1 @ [case vs of [] \<Rightarrow> LNil | v # _ \<Rightarrow> v]))"
proof (intro conjI)
  show "\<exists>r1 r2. calls (ctx (luaopen_dawn_db rt (ctx (luaopen_dawn_db rt L)))) =
            calls L @ [LoadFile ''/usr/local/share/lua/5.1/dawn_db.luac'', PCall 0 1] @ r1
                    @ [LoadFile ''/usr/local/share/lua/5.1/dawn_db.luac'', PCall 0 1] @ r2
          \<and> set r1 \<subseteq> {Error} \<and> set r2 \<subseteq> {Error}"
  proof -
    have one: "\<exists>r. calls (ctx (luaopen_dawn_db rt K)) =
          calls K @ [LoadFile ''/usr/local/share/lua/5.1/dawn_db.luac'', PCall 0 1] @ r
        \<and> set r \<subseteq> {Error}" for K :: "'a lua_State"
      using assms by (simp add: open_cases split: run_result.splits)
    from one [of L] obtain r1 where
      a: "calls (ctx (luaopen_dawn_db rt L)) =
          calls L @ [LoadFile ''/usr/local/share/lua/5.1/dawn_db.luac'', PCall 0 1] @ r1"
      and b: "set r1 \<subseteq> {Error}" by blast
    from one [of "ctx (luaopen_dawn_db rt L)"] obtain r2 where
      c: "calls (ctx (luaopen_dawn_db rt (ctx (luaopen_dawn_db rt L)))) =
          calls (ctx (luaopen_dawn_db rt L)) @
            [LoadFile ''/usr/local/share/lua/5.1/dawn_db.luac'', PCall 0 1] @ r2"
      and d: "set r2 \<subseteq> {Error}" by blast
    from a b c d show ?thesis
      by (intro exI [of _ r1] exI [of _ r2]) simp
  qed
next
  show "case units rt u [] (globals (ctx (luaopen_dawn_db rt L))) of
           Returns vs g \<Rightarrow>
             (\<exists>M. luaopen_dawn_db rt (ctx (luaopen_dawn_db rt L)) = Returned 1 M
                \<and> stack M = stack (ctx (luaopen_dawn_db rt L)) @
                              [case vs of [] \<Rightarrow> LNil | v # _ \<Rightarrow> v]
                \<and> globals M = g)
         | Faults e v g \<Rightarrow>
             (\<exists>x M. luaopen_dawn_db rt (ctx (luaopen_dawn_db rt L)) = Raised x M
                \<and> globals M = g)
         | Hangs \<Rightarrow> (\<exists>M. luaopen_dawn_db rt (ctx (luaopen_dawn_db rt L)) = NoReturn M)"
    using assms
    by (simp add: open_cases [of rt "ctx (luaopen_dawn_db rt L)"] split: run_result.splits)
next
  show "\<forall>vs g1 g2. units rt u [] (globals L) = Returns vs g1 \<and> units rt u [] g1 = Returns vs g2 \<longrightarrow>
           (\<exists>M1 M2. luaopen_dawn_db rt L = Returned 1 M1
              \<and> luaopen_dawn_db rt M1 = Returned 1 M2
              \<and> stack M1 = stack L @ [case vs of [] \<Rightarrow> LNil | v # _ \<Rightarrow> v]
              \<and> stack M2 = stack M1 @ [case vs of [] \<Rightarrow> LNil | v # _ \<Rightarrow> v])"
    using assms by (simp add: open_cases)
qed

theorem consecutive_calls_rerun_witness:
  "luaopen_dawn_db (demo_runtime (Parsed 0) table_unit) (demo_state [] 0) =
     Returned 1
       \<lparr>stack = [LTable 7], globals = 0, caller_where = [],
        calls = [LoadFile ''/usr/local/share/lua/5.1/dawn_db.luac'', PCall 0 1]\<rparr>
   \<and> luaopen_dawn_db (demo_runtime (Parsed 0) table_unit)
       \<lparr>stack = [LTable 7], globals = 0, caller_where = [],
        calls = [LoadFile ''/usr/local/share/lua/5.1/dawn_db.luac'', PCall 0 1]\<rparr> =
     Returned 1
       \<lparr>stack = [LTable 7, LTable 7], globals = 0, caller_where = [],
        calls = [LoadFile ''/usr/local/share/lua/5.1/dawn_db.luac'', PCall 0 1,
                 LoadFile ''/usr/local/share/lua/5.1/dawn_db.luac'', PCall 0 1]\<rparr>
   \<and> calls (ctx (luaopen_dawn_db (demo_runtime (Parsed 0) counter_unit)
        (ctx (luaopen_dawn_db (demo_runtime (Parsed 0) counter_unit) (demo_state [] 0))))) =
       [LoadFile ''/usr/local/share/lua/5.1/dawn_db.luac'', PCall 0 1,
        LoadFile ''/usr/local/share/lua/5.1/dawn_db.luac'', PCall 0 1]"
proof -
  let ?rt = "demo_runtime (Parsed 0) table_unit"
  have p: "files ?rt ''/usr/local/share/lua/5.1/dawn_db.luac'' = Parsed 0"
    by (simp add: demo_runtime_def demo_files_def)
  have r: "units ?rt 0 [] (globals (demo_state [] 0)) = Returns [LTable 7] 0
      \<and> units ?rt 0 [] 0 = Returns [LTable 7] 0"
    by (simp add: demo_runtime_def demo_state_def table_unit_def)
  from consecutive_calls_rerun [OF p, of "demo_state [] 0"] r
  obtain M1 M2 where
    m1: "luaopen_dawn_db ?rt (demo_state [] 0) = Returned 1 M1"
    and m2: "luaopen_dawn_db ?rt M1 = Returned 1 M2"
    and s2: "stack M2 = stack M1 @ [LTable 7]"
    by auto
  have e1: "luaopen_dawn_db ?rt (demo_state [] 0) =
     Returned 1
       \<lparr>stack = [LTable 7], globals = 0, caller_where = [],
        calls = [LoadFile ''/usr/local/share/lua/5.1/dawn_db.luac'', PCall 0 1]\<rparr>"
    by (simp add: open_cases demo_runtime_def demo_files_def demo_state_def table_unit_def)
  with m1 have M1: "M1 = \<lparr>stack = [LTable 7], globals = 0, caller_where = [],
        calls = [LoadFile ''/usr/local/share/lua/5.1/dawn_db.luac'', PCall 0 1]\<rparr>"
    by simp
  have e2: "luaopen_dawn_db ?rt M1 =
     Returned 1
       \<lparr>stack = [LTable 7, LTable 7], globals = 0, caller_where = [],
        calls = [LoadFile ''/usr/local/share/lua/5.1/dawn_db.luac'', PCall 0 1,
                 LoadFile ''/usr/local/share/lua/5.1/dawn_db.luac'', PCall 0 1]\<rparr>"
    unfolding M1
    by (simp add: open_cases demo_runtime_def demo_files_def table_unit_def)
  have e3: "calls (ctx (luaopen_dawn_db (demo_runtime (Parsed 0) counter_unit)
        (ctx (luaopen_dawn_db (demo_runtime (Parsed 0) counter_unit) (demo_state [] 0))))) =
       [LoadFile ''/usr/local/share/lua/5.1/dawn_db.luac'', PCall 0 1,
        LoadFile ''/usr/local/share/lua/5.1/dawn_db.luac'', PCall 0 1]"
    by (simp add: open_cases demo_runtime_def demo_files_def demo_state_def counter_unit_def)
  from e1 e2 e3 show ?thesis unfolding M1 by simp
qed

text \<open>
  C5 as it is written gives both calls the same result for every unit. The unit
  \<^verbatim>\<open>counter = (counter or 0) + 1; return counter\<close> counts in a global variable, which
  lives in the context and not in the loader: the first call delivers 1, the second 2.
\<close>

theorem second_call_differs_counterexample:
  "luaopen_dawn_db (demo_runtime (Parsed 0) counter_unit) (demo_state [] 0) =
     Returned 1
       \<lparr>stack = [LNumber 1], globals = 1, caller_where = [],
        calls = [LoadFile ''/usr/local/share/lua/5.1/dawn_db.luac'', PCall 0 1]\<rparr>
   \<and> luaopen_dawn_db (demo_runtime (Parsed 0) counter_unit)
       \<lparr>stack = [LNumber 1], globals = 1, caller_where = [],
        calls = [LoadFile ''/usr/local/share/lua/5.1/dawn_db.luac'', PCall 0 1]\<rparr> =
     Returned 1
       \<lparr>stack = [LNumber 1, LNumber 2], globals = 2, caller_where = [],
        calls = [LoadFile ''/usr/local/share/lua/5.1/dawn_db.luac'', PCall 0 1,
                 LoadFile ''/usr/local/share/lua/5.1/dawn_db.luac'', PCall 0 1]\<rparr>"
  by (simp add: open_cases demo_runtime_def demo_files_def demo_state_def counter_unit_def)

text \<open>
  C6. Whenever the file parses, the call makes exactly one \<^verbatim>\<open>lua_pcall\<close>, with no
  argument and one result asked for, right after the one load, and nothing after it but
  the raise of a fault; the globals it leaves are those of a single run of the unit
  without arguments (and when that run never ends, neither does the call).
\<close>

theorem unit_executed_once:
  assumes "files rt ''/usr/local/share/lua/5.1/dawn_db.luac'' = Parsed u"
  shows "(\<exists>rest. calls (ctx (luaopen_dawn_db rt L)) =
            calls L @ [LoadFile ''/usr/local/share/lua/5.1/dawn_db.luac'', PCall 0 1] @ rest
          \<and> set rest \<subseteq> {Error})
     \<and> (case units rt u [] (globals L) of
           Returns vs g \<Rightarrow> globals (ctx (luaopen_dawn_db rt L)) = g
         | Faults e v g \<Rightarrow> globals (ctx (luaopen_dawn_db rt L)) = g
         | Hangs \<Rightarrow> (\<exists>M. luaopen_dawn_db rt L = NoReturn M))"
  using assms by (simp add: open_cases split: run_result.splits)

theorem unit_executed_once_witness:
  "files (demo_runtime (Parsed 0) counter_unit) ''/usr/local/share/lua/5.1/dawn_db.luac'' = Parsed 0
   \<and> calls (ctx (luaopen_dawn_db (demo_runtime (Parsed 0) counter_unit) (demo_state [] 5))) =
       [LoadFile ''/usr/local/share/lua/5.1/dawn_db.luac'', PCall 0 1]
   \<and> globals (ctx (luaopen_dawn_db (demo_runtime (Parsed 0) counter_unit) (demo_state [] 5))) = 6"
proof -
  have p: "files (demo_runtime (Parsed 0) counter_unit)
      ''/usr/local/share/lua/5.1/dawn_db.luac'' = Parsed 0"
    by (simp add: demo_runtime_def demo_files_def)
  have r: "units (demo_runtime (Parsed 0) counter_unit) 0 [] (globals (demo_state [] 5)) =
      Returns [LNumber 6] 6"
    by (simp add: demo_runtime_def demo_state_def counter_unit_def)
  from unit_executed_once [OF p, of "demo_state [] 5"] r
  have g: "globals (ctx (luaopen_dawn_db (demo_runtime (Parsed 0) counter_unit)
      (demo_state [] 5))) = 6"
    by simp
  have c: "calls (ctx (luaopen_dawn_db (demo_runtime (Parsed 0) counter_unit) (demo_state [] 5))) =
       [LoadFile ''/usr/local/share/lua/5.1/dawn_db.luac'', PCall 0 1]"
    by (simp add: open_cases demo_runtime_def demo_files_def demo_state_def counter_unit_def)
  from p g c show ?thesis by simp
qed

text \<open>
  C7, as amended. A failed load raises, through \<^verbatim>\<open>lua_error\<close>, a string made of the
  caller's position, \<^verbatim>\<open>Failed to load dawn_db.luac: \<close> and the message the load left on
  top of the stack. A fault of the unit raises, through \<^verbatim>\<open>lua_error\<close>, a string too, made
  of the caller's position, \<^verbatim>\<open>Error running dawn_db.luac: \<close> and a text; that text is
  the value the fault left on top of the stack when this is a string that holds no zero
  byte, and the number's text when it is a number. In every case the string raised is
  on top of the stack, above the value the failed step left.
\<close>

theorem failures_raise_with_text:
  "(files rt ''/usr/local/share/lua/5.1/dawn_db.luac'' = Unparsed e msg \<longrightarrow>
      (\<exists>M. luaopen_dawn_db rt L =
         Raised (LString (caller_where L @ ''Failed to load dawn_db.luac: '' @ c_str msg)) M
       \<and> stack M = stack L @ [LString (c_str msg),
           LString (caller_where L @ ''Failed to load dawn_db.luac: '' @ c_str msg)]))
   \<and> (files rt ''/usr/local/share/lua/5.1/dawn_db.luac'' = Parsed u
      \<and> units rt u [] (globals L) = Faults e v g \<longrightarrow>
      (\<exists>txt M. luaopen_dawn_db rt L =
         Raised (LString (caller_where L @ ''Error running dawn_db.luac: '' @ txt)) M
       \<and> last (stack M) = LString (caller_where L @ ''Error running dawn_db.luac: '' @ txt)
       \<and> (\<forall>s. v = LString s \<and> CHR 0x00 \<notin> set s \<longrightarrow>
             txt = s \<and> stack M = stack L @ [LString s,
               LString (caller_where L @ ''Error running dawn_db.luac: '' @ s)])
       \<and> (\<forall>n. v = LNumber n \<longrightarrow>
             txt = c_str (number2str rt n) \<and> stack M = stack L @ [LString txt,
               LString (caller_where L @ ''Error running dawn_db.luac: '' @ txt)])))"
  by (auto simp add: open_cases c_str_zero_free)

theorem failures_raise_with_text_witness:
  "(\<exists>M. luaopen_dawn_db (demo_runtime (Unparsed ERRSYNTAX ''bad header in precompiled chunk'')
              counter_unit) (demo_state [] 0) =
         Raised (LString ''Failed to load dawn_db.luac: bad header in precompiled chunk'') M
       \<and> stack M = [LString ''bad header in precompiled chunk'',
           LString ''Failed to load dawn_db.luac: bad header in precompiled chunk''])
   \<and> (\<exists>M. luaopen_dawn_db (demo_runtime (Parsed 0)
              (\<lambda>g. Faults ERRRUN (LString ''dawn_db.lua:1: no such table'') g)) (demo_state [] 0) =
         Raised (LString ''Error running dawn_db.luac: dawn_db.lua:1: no such table'') M
       \<and> stack M = [LString ''dawn_db.lua:1: no such table'',
           LString ''Error running dawn_db.luac: dawn_db.lua:1: no such table''])"
proof -
  let ?rp = "demo_runtime (Unparsed ERRSYNTAX ''bad header in precompiled chunk'') counter_unit"
  have c: "c_str ''bad header in precompiled chunk'' = ''bad header in precompiled chunk''"
    by (simp add: c_str_def)
  have p: "files ?rp ''/usr/local/share/lua/5.1/dawn_db.luac'' =
      Unparsed ERRSYNTAX ''bad header in precompiled chunk''"
    by (simp add: demo_runtime_def demo_files_def)
  from failures_raise_with_text
    [of ?rp ERRSYNTAX "''bad header in precompiled chunk''" "demo_state [] 0"] p c
  have a: "\<exists>M. luaopen_dawn_db ?rp (demo_state [] 0) =
         Raised (LString ''Failed to load dawn_db.luac: bad header in precompiled chunk'') M
       \<and> stack M = [LString ''bad header in precompiled chunk'',
           LString ''Failed to load dawn_db.luac: bad header in precompiled chunk'']"
    by (simp add: demo_state_def)
  let ?m = "''dawn_db.lua:1: no such table''"
  let ?rf = "demo_runtime (Parsed 0) (\<lambda>g. Faults ERRRUN (LString ?m) g)"
  have q: "files ?rf ''/usr/local/share/lua/5.1/dawn_db.luac'' = Parsed 0
      \<and> units ?rf 0 [] (globals (demo_state [] 0)) = Faults ERRRUN (LString ?m) 0"
    by (simp add: demo_runtime_def demo_files_def demo_state_def)
  have z: "CHR 0x00 \<notin> set ?m" by simp
  from failures_raise_with_text
    [of ?rf ERRRUN _ "demo_state [] 0" 0 "LString ?m" 0] q z
  have b: "\<exists>M. luaopen_dawn_db ?rf (demo_state [] 0) =
         Raised (LString (''Error running dawn_db.luac: '' @ ?m)) M
       \<and> stack M = [LString ?m, LString (''Error running dawn_db.luac: '' @ ?m)]"
    by (auto simp add: demo_state_def)
  from a b show ?thesis by simp
qed

text \<open>
  C7 as it is written has the text of a string on top of the stack in the message after
  every failure. After \<^verbatim>\<open>error()\<close> the top is \<^verbatim>\<open>nil\<close>, and the message raised carries
  \<^verbatim>\<open>(null)\<close> in place of a diagnostic text; after \<^verbatim>\<open>error("a\0b", 0)\<close> the top is a
  string of three bytes, of which the message carries the first.
\<close>

theorem top_not_text_counterexample:
  "units (demo_runtime (Parsed 0) nil_fault_unit) 0 []
       (globals (demo_state [LString ''dawn_db''] 0)) = Faults ERRRUN LNil 0
   \<and> luaopen_dawn_db (demo_runtime (Parsed 0) nil_fault_unit)
       (demo_state [LString ''dawn_db''] 0) =
     Raised (LString ''Error running dawn_db.luac: (null)'')
       \<lparr>stack = [LString ''dawn_db'', LNil, LString ''Error running dawn_db.luac: (null)''],
        globals = 0, caller_where = [],
        calls = [LoadFile ''/usr/local/share/lua/5.1/dawn_db.luac'', PCall 0 1, Error]\<rparr>
   \<and> units (demo_runtime (Parsed 0) short_zero_byte_fault_unit) 0 []
       (globals (demo_state [LString ''dawn_db''] 0)) =
     Faults ERRRUN (LString [CHR ''a'', CHR 0x00, CHR ''b'']) 0
   \<and> luaopen_dawn_db (demo_runtime (Parsed 0) short_zero_byte_fault_unit)
       (demo_state [LString ''dawn_db''] 0) =
     Raised (LString ''Error running dawn_db.luac: a'')
       \<lparr>stack = [LString ''dawn_db'', LString [CHR ''a'', CHR 0x00, CHR ''b''],
                 LString ''Error running dawn_db.luac: a''],
        globals = 0, caller_where = [],
        calls = [LoadFile ''/usr/local/share/lua/5.1/dawn_db.luac'', PCall 0 1, Error]\<rparr>"
  by (simp add: open_cases demo_runtime_def demo_files_def demo_state_def nil_fault_unit_def
      short_zero_byte_fault_unit_def c_str_def)

text \<open>
  C8. Whenever the file parses and the run of the unit succeeds with the values \<open>vs\<close>,
  the loader returns 1 and pushes exactly one value: \<^verbatim>\<open>nil\<close> when \<open>vs\<close> is empty, the
  first of \<open>vs\<close> otherwise.
\<close>

theorem one_result_always:
  assumes "files rt ''/usr/local/share/lua/5.1/dawn_db.luac'' = Parsed u"
    and "units rt u [] (globals L) = Returns vs g"
  shows "luaopen_dawn_db rt L =
     Returned 1
       (L\<lparr>stack := stack L @ [case vs of [] \<Rightarrow> LNil | v # _ \<Rightarrow> v], globals := g,
          calls := calls L @ [LoadFile ''/usr/local/share/lua/5.1/dawn_db.luac'', PCall 0 1]\<rparr>)"
  by (rule open_returns [OF assms])

theorem one_result_always_witness:
  "luaopen_dawn_db (demo_runtime (Parsed 0) (\<lambda>g. Returns [] g)) (demo_state [] 0) =
     Returned 1
       \<lparr>stack = [LNil], globals = 0, caller_where = [],
        calls = [LoadFile ''/usr/local/share/lua/5.1/dawn_db.luac'', PCall 0 1]\<rparr>
   \<and> luaopen_dawn_db (demo_runtime (Parsed 0) (\<lambda>g. Returns [LTable 1, LBoolean True, LNil] g))
       (demo_state [] 0) =
     Returned 1
       \<lparr>stack = [LTable 1], globals = 0, caller_where = [],
        calls = [LoadFile ''/usr/local/share/lua/5.1/dawn_db.luac'', PCall 0 1]\<rparr>"
  using one_result_always
    [of "demo_runtime (Parsed 0) (\<lambda>g. Returns [] g)" 0 "demo_state [] 0" "[]" 0]
    one_result_always
    [of "demo_runtime (Parsed 0) (\<lambda>g. Returns [LTable 1, LBoolean True, LNil] g)" 0
        "demo_state [] 0" "[LTable 1, LBoolean True, LNil]" 0]
  by (simp add: demo_runtime_def demo_files_def demo_state_def)

text \<open>
  C9. The values on the stack at entry are neither changed nor read: whatever the
  outcome, the stack left begins with the entry stack; a normal return leaves the entry
  stack with exactly one value above it; and a call entered with any other stack \<open>s\<close>
  has the same outcome, with the same values pushed above \<open>s\<close>.
\<close>

theorem entry_stack_untouched:
  "take (length (stack L)) (stack (ctx (luaopen_dawn_db rt L))) = stack L
   \<and> (luaopen_dawn_db rt L = Returned n M \<longrightarrow> (\<exists>v. stack M = stack L @ [v]))
   \<and> luaopen_dawn_db rt (L\<lparr>stack := s\<rparr>) =
       (case luaopen_dawn_db rt L of
          Returned k N \<Rightarrow> Returned k (N\<lparr>stack := s @ drop (length (stack L)) (stack N)\<rparr>)
        | Raised x N \<Rightarrow> Raised x (N\<lparr>stack := s @ drop (length (stack L)) (stack N)\<rparr>)
        | NoReturn N \<Rightarrow> NoReturn (N\<lparr>stack := s @ drop (length (stack L)) (stack N)\<rparr>))"
proof (intro conjI)
  show "take (length (stack L)) (stack (ctx (luaopen_dawn_db rt L))) = stack L"
    by (simp add: open_cases split: parse_result.splits run_result.splits)
  show "luaopen_dawn_db rt L = Returned n M \<longrightarrow> (\<exists>v. stack M = stack L @ [v])"
    by (auto simp add: open_cases split: parse_result.splits run_result.splits)
  show "luaopen_dawn_db rt (L\<lparr>stack := s\<rparr>) =
       (case luaopen_dawn_db rt L of
          Returned k N \<Rightarrow> Returned k (N\<lparr>stack := s @ drop (length (stack L)) (stack N)\<rparr>)
        | Raised x N \<Rightarrow> Raised x (N\<lparr>stack := s @ drop (length (stack L)) (stack N)\<rparr>)
        | NoReturn N \<Rightarrow> NoReturn (N\<lparr>stack := s @ drop (length (stack L)) (stack N)\<rparr>))"
    by (simp add: open_cases split: parse_result.splits run_result.splits)
qed

theorem entry_stack_untouched_witness:
  "luaopen_dawn_db (demo_runtime (Parsed 0) (\<lambda>g. Returns [LTable 7] g))
       (demo_state [LString ''dawn_db'', LBoolean True] 0) =
     Returned 1
       \<lparr>stack = [LString ''dawn_db'', LBoolean True, LTable 7], globals = 0, caller_where = [],
        calls = [LoadFile ''/usr/local/share/lua/5.1/dawn_db.luac'', PCall 0 1]\<rparr>
   \<and> (\<exists>v. [LString ''dawn_db'', LBoolean True, LTable 7] = [LString ''dawn_db'', LBoolean True] @ [v])"
proof -
  have r: "luaopen_dawn_db (demo_runtime (Parsed 0) (\<lambda>g. Returns [LTable 7] g))
       (demo_state [LString ''dawn_db'', LBoolean True] 0) =
     Returned 1
       \<lparr>stack = [LString ''dawn_db'', LBoolean True, LTable 7], globals = 0, caller_where = [],
        calls = [LoadFile ''/usr/local/share/lua/5.1/dawn_db.luac'', PCall 0 1]\<rparr>"
    by (simp add: open_cases demo_runtime_def demo_files_def demo_state_def)
  from entry_stack_untouched
    [of "demo_state [LString ''dawn_db'', LBoolean True] 0"
        "demo_runtime (Parsed 0) (\<lambda>g. Returns [LTable 7] g)" 1
        "\<lparr>stack = [LString ''dawn_db'', LBoolean True, LTable 7], globals = 0, caller_where = [],
          calls = [LoadFile ''/usr/local/share/lua/5.1/dawn_db.luac'', PCall 0 1]\<rparr>"] r
  have "\<exists>v. [LString ''dawn_db'', LBoolean True, LTable 7] = stack (demo_state [LString ''dawn_db'', LBoolean True] 0) @ [v]"
    by simp
  then show ?thesis using r by (simp add: demo_state_def)
qed

text \<open>
  C10. A normal return of the entry point has status 1 and happens only when the load
  and the run of the unit have both succeeded; and every call that ends (the unit does
  not hang) either returns 1 or leaves through \<^verbatim>\<open>lua_error\<close>.
\<close>

theorem two_outcomes:
  "(luaopen_dawn_db rt L = Returned n M \<longrightarrow>
      n = 1 \<and> (\<exists>u vs g. files rt ''/usr/local/share/lua/5.1/dawn_db.luac'' = Parsed u
                 \<and> units rt u [] (globals L) = Returns vs g))
   \<and> ((\<forall>u. files rt ''/usr/local/share/lua/5.1/dawn_db.luac'' = Parsed u \<longrightarrow>
            units rt u [] (globals L) \<noteq> Hangs) \<longrightarrow>
       (\<exists>N. luaopen_dawn_db rt L = Returned 1 N) \<or> (\<exists>x N. luaopen_dawn_db rt L = Raised x N))"
  by (auto simp add: open_cases split: parse_result.splits run_result.splits)

theorem two_outcomes_witness:
  "(\<exists>N. luaopen_dawn_db
          (demo_runtime (Parsed 0) (\<lambda>g. Faults ERRMEM (LString ''not enough memory'') g))
          (demo_state [] 0) = Returned 1 N)
     \<or> (\<exists>x N. luaopen_dawn_db
          (demo_runtime (Parsed 0) (\<lambda>g. Faults ERRMEM (LString ''not enough memory'') g))
          (demo_state [] 0) = Raised x N)"
proof -
  have h: "\<forall>u. files (demo_runtime (Parsed 0) (\<lambda>g. Faults ERRMEM (LString ''not enough memory'') g))
          ''/usr/local/share/lua/5.1/dawn_db.luac'' = Parsed u \<longrightarrow>
        units (demo_runtime (Parsed 0) (\<lambda>g. Faults ERRMEM (LString ''not enough memory'') g))
          u [] (globals (demo_state [] 0)) \<noteq> Hangs"
    by (simp add: demo_runtime_def)
  from two_outcomes
    [of "demo_runtime (Parsed 0) (\<lambda>g. Faults ERRMEM (LString ''not enough memory'') g)"
        "demo_state [] 0"] h
  show ?thesis by blast
qed

end
